theory Spec2Isabelle
  imports Main
begin

section \<open>Characters and Python values used by the sources\<close>

definition bslash :: char where
  "bslash = CHR 0x5C"

definition newline :: char where
  "newline = CHR 0x0A"

definition dquote :: char where
  "dquote = CHR 0x22"

definition dot :: char where
  "dot = CHR ''.''"

text \<open>
  Exceptions are values; the string of an exception is its \<open>str(e)\<close>, the integer of
  \<open>OSError\<close> its \<open>errno\<close>. \<open>sys.exit(arg)\<close> raises \<open>SystemExit\<close> with an integer status or
  with a message (a message is printed to the error stream and the status is 1).
\<close>

datatype exit_arg = ExitStatus int | ExitMessage string

datatype exn =
    SystemExit exit_arg
  | RuntimeError string
  | RepositoryNotFound string
  | KeyError string
  | OSError int string
  | ReError string
  | AttributeError string
  | UnboundLocalError string
  | OtherError string

text \<open>Truthiness of an optional string (\<open>None\<close> and \<open>''\<close> are false).\<close>

fun truthy :: "string option \<Rightarrow> bool" where
  "truthy None = False"
| "truthy (Some s) = (s \<noteq> [])"

text \<open>The string of an optional string that is known to be true.\<close>

fun str_value :: "string option \<Rightarrow> string" where
  "str_value None = []"
| "str_value (Some s) = s"

section \<open>The regular expressions of \<open>config_file.py\<close>\<close>

text \<open>
  The two patterns that the module writes down are kept as syntax trees and run by a
  backtracking matcher in the manner of Python's \<open>re\<close>: a position in the subject is the
  pair of the text before it (reversed) and the text after it, and the matcher lists the
  positions where a match can end, most preferred first (a star is greedy).
\<close>

datatype regex =
    Lit char
  | NotIn "char list"
  | Cat regex regex
  | Star regex
  | Group regex
  | LookBehind nat regex
  | Eol

type_synonym pos = "string \<times> string"

function matches :: "regex \<Rightarrow> pos \<Rightarrow> pos list" where
  "matches (Lit c) (b, a) =
     (case a of [] \<Rightarrow> [] | x # xs \<Rightarrow> if x = c then [(x # b, xs)] else [])"
| "matches (NotIn cs) (b, a) =
     (case a of [] \<Rightarrow> [] | x # xs \<Rightarrow> if x \<in> set cs then [] else [(x # b, xs)])"
| "matches (Cat r1 r2) p = concat (map (matches r2) (matches r1 p))"
| "matches (Star r) p =
     concat (map (\<lambda>p'. if length (snd p') < length (snd p) then matches (Star r) p' else [])
                 (matches r p)) @ [p]"
| "matches (Group r) p = matches r p"
| "matches (LookBehind n r) (b, a) =
     (if n \<le> length b \<and> (b, a) \<in> set (matches r (drop n b, rev (take n b) @ a))
      then [(b, a)] else [])"
| "matches Eol (b, a) = (if a = [] \<or> a = [newline] then [(b, a)] else [])"
  by pat_completeness auto
termination
  by (relation "inv_image (less_than <*lex*> less_than) (\<lambda>(r, p). (size r, length (snd p)))")
     auto

text \<open>
  \<open>regex.match(s)\<close>: the preferred match that starts at the beginning of \<open>s\<close>, or
  \<open>None\<close>. The match object is the position where the match ends; \<open>.group(0)\<close> is the
  text before that position.
\<close>

definition re_match :: "regex \<Rightarrow> string \<Rightarrow> pos option" where
  "re_match r s = (case matches r ([], s) of [] \<Rightarrow> None | m # _ \<Rightarrow> Some m)"

definition group0 :: "pos \<Rightarrow> string" where
  "group0 m = rev (fst m)"

text \<open>
  \<open>regex.sub(repl, s)\<close> with a literal replacement: scan from the left, replace the
  preferred match at the first position that has one, continue after it. After an empty
  match the scan stays where it is and accepts only a match that advances.
\<close>

function re_sub_from :: "regex \<Rightarrow> string \<Rightarrow> bool \<Rightarrow> pos \<Rightarrow> string" where
  "re_sub_from r repl must_advance (b, a) =
     (if must_advance then
        (case filter (\<lambda>p'. length (snd p') < length a) (matches r (b, a)) of
           [] \<Rightarrow> (case a of [] \<Rightarrow> [] | x # xs \<Rightarrow> x # re_sub_from r repl False (x # b, xs))
         | p' # _ \<Rightarrow> repl @ re_sub_from r repl False p')
      else
        (case matches r (b, a) of
           [] \<Rightarrow> (case a of [] \<Rightarrow> [] | x # xs \<Rightarrow> x # re_sub_from r repl False (x # b, xs))
         | p' # _ \<Rightarrow>
             if length (snd p') < length a then repl @ re_sub_from r repl False p'
             else repl @ re_sub_from r repl True (b, a)))"
  by pat_completeness auto
termination
  by (relation "measure (\<lambda>(r, repl, adv, p). 2 * length (snd p) + (if adv then 0 else 1))")
     (auto simp: filter_eq_Cons_iff)

definition re_sub :: "regex \<Rightarrow> string \<Rightarrow> string \<Rightarrow> string" where
  "re_sub r repl s = re_sub_from r repl False ([], s)"

section \<open>\<open>config_file.py\<close>: path sanitization\<close>

text \<open>
  \<open>_escape_trailing_backslash_re = re.compile(r'(?<=[^\\])\\$')\<close>: a backslash at the end
  of the subject (\<open>$\<close> also holds before a final newline) that comes after a character
  other than a backslash. The look-behind is one character wide.
\<close>

definition escape_trailing_backslash_re :: regex where
  "escape_trailing_backslash_re =
     Cat (LookBehind 1 (NotIn [bslash])) (Cat (Lit bslash) Eol)"

text \<open>
  \<open>_sanitize_path(self, path)\<close>; \<open>os_sep\<close> is \<open>os.sep\<close>. The replacement template
  \<open>r'\\\\'\<close> stands for two backslashes.
\<close>

definition sanitize_path :: "string \<Rightarrow> string \<Rightarrow> string" where
  "sanitize_path os_sep path =
     (if os_sep = [bslash] then re_sub escape_trailing_backslash_re [bslash, bslash] path
      else path)"

section \<open>The repository and the other collaborators\<close>

text \<open>
  The repository, the renderers and the interpreter's environment are not part of these
  sources; they are parameters of the model. A run has an identifier, a subunit stream
  and a test case (of a type \<open>'tc\<close> left open).
\<close>

record 'tc run =
  get_id :: int
  get_subunit_stream :: string
  get_test :: 'tc

record 'tc repository =
  get_latest_run :: "exn + 'tc run"
  get_test_run :: "int \<Rightarrow> exn + 'tc run"
  latest_id :: int

text \<open>The user configuration: the \<open>last\<close> and \<open>run\<close> mappings, each of which may be absent.\<close>

record user_config =
  uc_last :: "(string \<times> bool) list option"
  uc_run :: "(string \<times> bool) list option"

text \<open>
  \<^item> \<open>os_sep\<close>, \<open>sys_platform\<close>, \<open>sys_executable\<close>: \<open>os.sep\<close>, \<open>sys.platform\<close>,
    \<open>sys.executable\<close> (which may be empty or \<open>None\<close>);
  \<^item> \<open>environ_PYTHON\<close>: \<open>os.environ.get('PYTHON')\<close>; \<open>path_exists\<close>: \<open>os.path.exists\<close>;
  \<^item> \<open>re_compile\<close>: \<open>re.compile\<close> on a pattern string;
  \<^item> \<open>get_repo_open\<close>, \<open>get_repo_initialise\<close>: the functions of \<open>stestr.repository.util\<close>;
  \<^item> \<open>get_user_config\<close>: \<open>user_config.get_user_config\<close>;
  \<^item> \<open>output_stream\<close>: \<open>output.output_stream(stream, output=stdout)\<close>, from the stream and the
    text already on the sink to the text on the sink afterwards and the exception raised,
    if any;
  \<^item> \<open>cli_test_result\<close>: building a \<open>results.CLITestResult\<close> from the latest run, the sink
    and the previous run, starting it, running the test case against it, stopping it, and
    asking \<open>results.wasSuccessful\<close> of its summary: the text on the sink afterwards and the
    answer (or the exception raised);
  \<^item> \<open>subunit_trace\<close>: \<open>subunit_trace.trace(stream, stdout, post_fails=True, color, suppress_attachments,
    all_attachments, show_binary_attachments)\<close>: the text on the sink afterwards and whether
    the run had failures (or the exception raised).
\<close>

record 'tc externals =
  os_sep :: string
  sys_platform :: string
  sys_executable :: "string option"
  environ_PYTHON :: "string option"
  path_exists :: "string \<Rightarrow> bool"
  re_compile :: "string \<Rightarrow> exn + regex"
  get_repo_open :: "string option \<Rightarrow> exn + 'tc repository"
  get_repo_initialise :: "string \<Rightarrow> string option \<Rightarrow> exn + 'tc repository"
  get_user_config :: "string option \<Rightarrow> exn + user_config option"
  output_stream :: "string \<Rightarrow> string \<Rightarrow> string \<times> exn option"
  cli_test_result :: "'tc run \<Rightarrow> 'tc \<Rightarrow> 'tc run option \<Rightarrow> string \<Rightarrow> string \<times> (exn + bool)"
  subunit_trace :: "string \<Rightarrow> string \<Rightarrow> bool \<Rightarrow> bool \<Rightarrow> bool \<Rightarrow> bool \<Rightarrow> string \<times> (exn + bool)"

section \<open>\<open>config_file.py\<close>: \<open>TestrConf.get_run_command\<close>\<close>

text \<open>The \<open>configparser\<close> object, through the three methods the module calls.\<close>

record config_parser =
  has_option :: "string \<Rightarrow> string \<Rightarrow> bool"
  get_option :: "string \<Rightarrow> string \<Rightarrow> exn + string"
  getboolean :: "string \<Rightarrow> string \<Rightarrow> exn + bool"

record testr_conf =
  parser :: config_parser
  config_file :: string
  section_name :: string

text \<open>The keyword arguments of \<open>get_run_command\<close>.\<close>

record run_args =
  arg_test_ids :: "string list option"
  arg_regexes :: "string list option"
  arg_test_path :: "string option"
  arg_top_dir :: "string option"
  arg_group_regex :: "string option"
  arg_repo_url :: "string option"
  arg_serial :: bool
  arg_worker_path :: "string option"
  arg_concurrency :: int
  arg_exclude_list :: "string option"
  arg_include_list :: "string option"
  arg_exclude_regex :: "string option"
  arg_randomize :: bool
  arg_parallel_class :: "bool option"

text \<open>What \<open>test_processor.TestProcessorFixture\<close> is constructed from.\<close>

record 'tc test_processor_fixture =
  fx_test_ids :: "string list option"
  fx_cmd_template :: string
  fx_listopt :: string
  fx_idoption :: string
  fx_repository :: "'tc repository"
  fx_test_filters :: "string list option"
  fx_group_callback :: "(string \<Rightarrow> string option) option"
  fx_serial :: bool
  fx_worker_path :: "string option"
  fx_concurrency :: int
  fx_exclude_list :: "string option"
  fx_exclude_regex :: "string option"
  fx_include_list :: "string option"
  fx_randomize :: bool

text \<open>Lines 109 to 115: the test path, or \<open>sys.exit\<close> with a message.\<close>

definition no_test_path_message :: "string \<Rightarrow> string" where
  "no_test_path_message cf =
     ''No test_path can be found in either the command line '' @
     ''options nor in the specified config file '' @ cf @ ''.  Please '' @
     ''specify a test path either in the config file or via '' @
     ''the --test-path argument''"

definition resolve_test_path :: "testr_conf \<Rightarrow> string option \<Rightarrow> exn + string" where
  "resolve_test_path self test_path =
     (if \<not> truthy test_path \<and> has_option (parser self) (section_name self) ''test_path''
      then get_option (parser self) (section_name self) ''test_path''
      else if \<not> truthy test_path
      then Inl (SystemExit (ExitMessage (no_test_path_message (config_file self))))
      else Inr (str_value test_path))"

text \<open>Lines 116 to 119: the top directory, \<open>./\<close> by default.\<close>

definition resolve_top_dir :: "testr_conf \<Rightarrow> string option \<Rightarrow> exn + string" where
  "resolve_top_dir self top_dir =
     (if \<not> truthy top_dir \<and> has_option (parser self) (section_name self) ''top_dir''
      then get_option (parser self) (section_name self) ''top_dir''
      else if \<not> truthy top_dir then Inr ''./''
      else Inr (str_value top_dir))"

text \<open>Lines 124 to 142: the interpreter, put in quotes when the quoted path exists.\<close>

definition quoted :: "string \<Rightarrow> string" where
  "quoted s = [dquote] @ s @ [dquote]"

definition resolve_python :: "'tc externals \<Rightarrow> exn + string" where
  "resolve_python ext =
     (case (if sys_platform ext = ''win32'' then
              (if \<not> truthy (sys_executable ext)
               then Inl (RuntimeError ''The Python interpreter was not found'')
               else Inr (str_value (sys_executable ext)))
            else
              (if truthy (environ_PYTHON ext) then Inr ''${PYTHON}''
               else if truthy (sys_executable ext) then Inr (str_value (sys_executable ext))
               else Inl (RuntimeError (''The Python interpreter was not found and '' @
                                       ''PYTHON is not set''))))
      of Inl e \<Rightarrow> Inl e
       | Inr python \<Rightarrow>
           if path_exists ext (quoted python) then Inr (quoted python) else Inr python)"

text \<open>Lines 144 and 145.\<close>

definition command :: "string \<Rightarrow> string \<Rightarrow> string \<Rightarrow> string" where
  "command python top_dir test_path =
     python @ '' -m stestr.subunit_runner.run discover -t '' @ quoted top_dir @ '' '' @
     quoted test_path @ '' $LISTOPT $IDOPTION''"

text \<open>Lines 150 to 158: the group pattern. \<open>r'([^\.]*\.)*'\<close> is the pattern of a class.\<close>

definition parallel_class_pattern :: string where
  "parallel_class_pattern = ''([^'' @ [bslash] @ ''.]*'' @ [bslash] @ ''.)*''"

definition resolve_group_regex ::
  "testr_conf \<Rightarrow> bool option \<Rightarrow> string option \<Rightarrow> exn + string option" where
  "resolve_group_regex self parallel_class group_regex =
     (let group_regex1 =
            (if parallel_class = Some True then Some parallel_class_pattern else group_regex)
      in case (if \<not> truthy group_regex1 \<and>
                  has_option (parser self) (section_name self) ''parallel_class''
               then (case getboolean (parser self) (section_name self) ''parallel_class'' of
                       Inl e \<Rightarrow> Inl e
                     | Inr flag \<Rightarrow> Inr (if flag then Some parallel_class_pattern else group_regex1))
               else Inr group_regex1)
         of Inl e \<Rightarrow> Inl e
          | Inr group_regex2 \<Rightarrow>
              if \<not> truthy group_regex2 \<and>
                 has_option (parser self) (section_name self) ''group_regex''
              then (case get_option (parser self) (section_name self) ''group_regex'' of
                      Inl e \<Rightarrow> Inl e
                    | Inr v \<Rightarrow> Inr (Some v))
              else Inr group_regex2)"

text \<open>Lines 159 to 165: the classifier, closed over the compiled pattern.\<close>

definition group_callback :: "regex \<Rightarrow> string \<Rightarrow> string option" where
  "group_callback regex test_id =
     (case re_match regex test_id of
        Some m \<Rightarrow> Some (group0 m)
      | None \<Rightarrow> None)"

definition build_group_callback ::
  "'tc externals \<Rightarrow> string option \<Rightarrow> exn + (string \<Rightarrow> string option) option" where
  "build_group_callback ext group_regex =
     (if truthy group_regex then
        (case re_compile ext (str_value group_regex) of
           Inl e \<Rightarrow> Inl e
         | Inr regex \<Rightarrow> Inr (Some (group_callback regex)))
      else Inr None)"

definition get_run_command ::
  "'tc externals \<Rightarrow> testr_conf \<Rightarrow> run_args \<Rightarrow> exn + 'tc test_processor_fixture" where
  "get_run_command ext self args =
     (case resolve_test_path self (arg_test_path args) of
        Inl e \<Rightarrow> Inl e
      | Inr test_path0 \<Rightarrow>
     (case resolve_top_dir self (arg_top_dir args) of
        Inl e \<Rightarrow> Inl e
      | Inr top_dir0 \<Rightarrow>
     (let test_path = sanitize_path (os_sep ext) test_path0;
          top_dir = sanitize_path (os_sep ext) top_dir0
      in
     (case resolve_python ext of
        Inl e \<Rightarrow> Inl e
      | Inr python \<Rightarrow>
     (case resolve_group_regex self (arg_parallel_class args) (arg_group_regex args) of
        Inl e \<Rightarrow> Inl e
      | Inr group_regex \<Rightarrow>
     (case build_group_callback ext group_regex of
        Inl e \<Rightarrow> Inl e
      | Inr callback \<Rightarrow>
     (case get_repo_open ext (arg_repo_url args) of
        Inl e \<Rightarrow> Inl e
      | Inr repository \<Rightarrow>
          Inr \<lparr> fx_test_ids = arg_test_ids args,
                fx_cmd_template = command python top_dir test_path,
                fx_listopt = ''--list'',
                fx_idoption = ''--load-list $IDFILE'',
                fx_repository = repository,
                fx_test_filters = arg_regexes args,
                fx_group_callback = callback,
                fx_serial = arg_serial args,
                fx_worker_path = arg_worker_path args,
                fx_concurrency = arg_concurrency args,
                fx_exclude_list = arg_exclude_list args,
                fx_exclude_regex = arg_exclude_regex args,
                fx_include_list = arg_include_list args,
                fx_randomize = arg_randomize args \<rparr>)))))))"

text \<open>
  The pattern of a class as \<open>re.compile\<close> reads it: a group, repeated, of any number of
  characters other than a dot followed by a dot.
\<close>

definition parallel_class_re :: regex where
  "parallel_class_re = Star (Group (Cat (Star (NotIn [dot])) (Lit dot)))"

section \<open>\<open>commands/last.py\<close>\<close>

text \<open>
  What the commands change: the text on the output sink and on the error stream, the
  warnings issued, and how many times \<open>util.get_repo_open\<close> has been called.
\<close>

record world =
  stdout :: string
  stderr :: string
  warnings :: "string list"
  gateway_calls :: nat

definition stdout_write :: "string \<Rightarrow> world \<Rightarrow> world" where
  "stdout_write s w = w\<lparr>stdout := stdout w @ s\<rparr>"

text \<open>Lines 166 to 169: the run before the latest; a \<open>KeyError\<close> means there is none.\<close>

definition load_previous :: "'tc repository \<Rightarrow> exn + 'tc run option" where
  "load_previous repo =
     (case get_test_run repo (latest_id repo - 1) of
        Inl (KeyError m) \<Rightarrow> Inr None
      | Inl e \<Rightarrow> Inl e
      | Inr previous_run \<Rightarrow> Inr (Some previous_run))"

text \<open>Lines 188 to 191.\<close>

definition exit_status :: "bool \<Rightarrow> int" where
  "exit_status failed = (if failed then 1 else 0)"

text \<open>The function \<open>last\<close>; \<open>stdout\<close> is the sink of the world.\<close>

definition last_cmd ::
  "'tc externals \<Rightarrow> string option \<Rightarrow> bool \<Rightarrow> bool \<Rightarrow> bool \<Rightarrow> bool \<Rightarrow> bool \<Rightarrow> bool \<Rightarrow>
   world \<Rightarrow> (exn + int) \<times> world" where
  "last_cmd ext repo_url subunit_out pretty_out color suppress_attachments all_attachments
            show_binary_attachments w0 =
     (let w = w0\<lparr>gateway_calls := gateway_calls w0 + 1\<rparr> in
      case get_repo_open ext repo_url of
        Inl (RepositoryNotFound m) \<Rightarrow> (Inr 1, stdout_write (m @ [newline]) w)
      | Inl e \<Rightarrow> (Inl e, w)
      | Inr repo \<Rightarrow>
      (case get_latest_run repo of
        Inl (KeyError m) \<Rightarrow> (Inr 1, stdout_write (m @ [newline]) w)
      | Inl e \<Rightarrow> (Inl e, w)
      | Inr latest_run \<Rightarrow>
      if subunit_out then
        (case output_stream ext (get_subunit_stream latest_run) (stdout w) of
           (out, Some e) \<Rightarrow> (Inl e, w\<lparr>stdout := out\<rparr>)
         | (out, None) \<Rightarrow> (Inr 0, w\<lparr>stdout := out\<rparr>))
      else
        (let test_case = get_test latest_run in
         case load_previous repo of
           Inl e \<Rightarrow> (Inl e, w)
         | Inr previous_run \<Rightarrow>
             if \<not> pretty_out then
               (case cli_test_result ext latest_run test_case previous_run (stdout w) of
                  (out, Inl e) \<Rightarrow> (Inl e, w\<lparr>stdout := out\<rparr>)
                | (out, Inr successful) \<Rightarrow>
                    (Inr (exit_status (\<not> successful)), w\<lparr>stdout := out\<rparr>))
             else
               (case subunit_trace ext (get_subunit_stream latest_run) (stdout w) color
                       suppress_attachments all_attachments show_binary_attachments of
                  (out, Inl e) \<Rightarrow> (Inl e, w\<lparr>stdout := out\<rparr>)
                | (out, Inr failed) \<Rightarrow> (Inr (exit_status failed), w\<lparr>stdout := out\<rparr>)))))"

text \<open>The parsed arguments of the command and the arguments of the application.\<close>

record last_args =
  args_subunit :: bool
  args_no_subunit_trace :: bool
  args_force_subunit_trace :: bool
  args_color :: bool
  args_suppress_attachments :: bool
  args_all_attachments :: bool
  args_show_binary_attachments :: bool

record app_args =
  app_user_config :: "string option"
  app_repo_url :: "string option"
  app_repo_type :: string

definition mutually_exclusive_message :: string where
  "mutually_exclusive_message =
     ''The --suppress-attachments and --all-attachments '' @
     ''options are mutually exclusive, you can not use both '' @
     ''at the same time''"

text \<open>\<open>d.get(key)\<close> on a mapping of flags, and the truth of its answer.\<close>

definition dict_get :: "(string \<times> bool) list \<Rightarrow> string \<Rightarrow> bool option" where
  "dict_get d k = map_of d k"

definition dict_get_default :: "(string \<times> bool) list \<Rightarrow> string \<Rightarrow> bool \<Rightarrow> bool" where
  "dict_get_default d k dflt = (case map_of d k of None \<Rightarrow> dflt | Some v \<Rightarrow> v)"

text \<open>\<open>getattr(user_conf, 'last', False)\<close> is true for a mapping that is not empty.\<close>

fun conf_last :: "user_config option \<Rightarrow> (string \<times> bool) list option" where
  "conf_last None = None"
| "conf_last (Some uc) =
     (case uc_last uc of None \<Rightarrow> None | Some d \<Rightarrow> if d = [] then None else Some d)"

text \<open>
  Lines 83 to 110: the settings handed to \<open>last\<close>, as (pretty_out, color,
  suppress_attachments, all_attachments).
\<close>

definition resolve_settings ::
  "user_config option \<Rightarrow> last_args \<Rightarrow> exn + (bool \<times> bool \<times> bool \<times> bool)" where
  "resolve_settings user_conf args =
     (case conf_last user_conf of
        Some last_conf \<Rightarrow>
          (let pretty_out0 =
                 (if dict_get last_conf ''no-subunit-trace'' \<noteq> Some True
                  then (if \<not> args_no_subunit_trace args then True else False)
                  else False);
               pretty_out = (args_force_subunit_trace args \<or> pretty_out0);
               color = (args_color args \<or> dict_get_default last_conf ''color'' False)
           in case (case user_conf of None \<Rightarrow> None | Some uc \<Rightarrow> uc_run uc) of
                None \<Rightarrow> Inl (AttributeError ''get'')
              | Some run_conf \<Rightarrow>
                  (let suppress_attachments_conf =
                         dict_get_default run_conf ''suppress-attachments'' False;
                       all_attachments_conf =
                         dict_get_default run_conf ''all-attachments'' False
                   in if \<not> args_suppress_attachments args \<and> \<not> args_all_attachments args
                      then Inr (pretty_out, color, suppress_attachments_conf,
                                all_attachments_conf)
                      else if args_suppress_attachments args
                      then Inr (pretty_out, color, args_suppress_attachments args, False)
                      else if args_all_attachments args
                      then Inr (pretty_out, color, False, args_all_attachments args)
                      else Inl (UnboundLocalError ''suppress_attachments'')))
      | None \<Rightarrow>
          Inr (args_force_subunit_trace args \<or> \<not> args_no_subunit_trace args,
               args_color args,
               args_suppress_attachments args,
               args_all_attachments args))"

text \<open>\<open>Last.take_action\<close>; \<open>print\<close> writes the message and a newline to the output.\<close>

definition take_action ::
  "'tc externals \<Rightarrow> app_args \<Rightarrow> last_args \<Rightarrow> world \<Rightarrow> (exn + int) \<times> world" where
  "take_action ext app args w =
     (case get_user_config ext (app_user_config app) of
        Inl e \<Rightarrow> (Inl e, w)
      | Inr user_conf \<Rightarrow>
          if args_suppress_attachments args \<and> args_all_attachments args
          then (Inl (SystemExit (ExitStatus 1)),
                stdout_write (mutually_exclusive_message @ [newline]) w)
          else
            (case resolve_settings user_conf args of
               Inl e \<Rightarrow> (Inl e, w)
             | Inr (pretty_out, color, suppress_attachments, all_attachments) \<Rightarrow>
                 last_cmd ext (app_repo_url app) (args_subunit args) pretty_out color
                   suppress_attachments all_attachments (args_show_binary_attachments args) w))"

section \<open>\<open>commands/init.py\<close>\<close>

definition EEXIST :: int where
  "EEXIST = 17"

definition sql_deprecation_message :: string where
  "sql_deprecation_message =
     ''WARNING: The sql repository type is deprecated and will be '' @
     ''removed in the 4.0.0 release. Instead use the file '' @
     ''repository type'' @ [newline]"

definition already_exists_message :: "string \<Rightarrow> string" where
  "already_exists_message repo_path =
     ''The specified repository directory '' @ repo_path @ '' already exists. '' @
     ''Please check if the repository already exists or '' @
     ''select a different path'' @ [newline]"

text \<open>
  The function \<open>init\<close>. Its result is \<open>Some\<close> status where it returns one and \<open>None\<close> where
  it reaches its end without a \<open>return\<close>.
\<close>

definition init ::
  "'tc externals \<Rightarrow> string \<Rightarrow> string option \<Rightarrow> world \<Rightarrow> (exn + int option) \<times> world" where
  "init ext repo_type repo_url w0 =
     (let w = (if repo_type = ''sql''
               then w0\<lparr>stderr := stderr w0 @ sql_deprecation_message,
                       warnings := warnings w0 @ [sql_deprecation_message]\<rparr>
               else w0)
      in case get_repo_initialise ext repo_type repo_url of
           Inl (OSError errno m) \<Rightarrow>
             if errno \<noteq> EEXIST then (Inl (OSError errno m), w)
             else (let repo_path = (if truthy repo_url then str_value repo_url else ''./stestr'')
                   in (Inr (Some 1), stdout_write (already_exists_message repo_path) w))
         | Inl e \<Rightarrow> (Inl e, w)
         | Inr repo \<Rightarrow> (Inr None, w))"

text \<open>\<open>Init.take_action\<close> calls \<open>init\<close> and returns nothing.\<close>

definition init_take_action ::
  "'tc externals \<Rightarrow> app_args \<Rightarrow> world \<Rightarrow> (exn + int option) \<times> world" where
  "init_take_action ext app w =
     (case init ext (app_repo_type app) (app_repo_url app) w of
        (Inl e, w') \<Rightarrow> (Inl e, w')
      | (Inr status, w') \<Rightarrow> (Inr None, w'))"

section \<open>The scheduler's reading of a group key\<close>



section \<open>The path sanitization as the specification words it\<close>

text \<open>The number of consecutive backslashes at the end of a path.\<close>

definition trailing_backslashes :: "string \<Rightarrow> nat" where
  "trailing_backslashes path = length (takeWhile (\<lambda>c. c = bslash) (rev path))"

text \<open>
  The specification's wording of the transform, to be compared with \<open>sanitize_path\<close>: where
  the separator is a backslash, a path that ends in an odd number of backslashes gets its
  final backslash doubled; any other path is left as it is.
\<close>

definition spec_sanitize_path :: "string \<Rightarrow> string \<Rightarrow> string" where
  "spec_sanitize_path sep path =
     (if sep = [bslash] \<and> odd (trailing_backslashes path) then path @ [bslash] else path)"

section \<open>A concrete setting\<close>

text \<open>
  A repository with one run, a configuration file without options, and an environment on a
  platform with a forward slash whose interpreter path has a space in it. The file system
  holds the interpreter under its path and nothing under the path in quotes.
\<close>

definition example_run :: "unit run" where
  "example_run = \<lparr> get_id = 0, get_subunit_stream = ''subunit-bytes'', get_test = () \<rparr>"

definition example_repository :: "unit repository" where
  "example_repository =
     \<lparr> get_latest_run = Inr example_run,
       get_test_run = (\<lambda>i. Inl (KeyError ''No such run.'')),
       latest_id = 0 \<rparr>"

definition example_python :: string where
  "example_python = ''/opt/my python/bin/python3''"

definition example_ext :: "unit externals" where
  "example_ext =
     \<lparr> os_sep = ''/'',
       sys_platform = ''linux'',
       sys_executable = Some example_python,
       environ_PYTHON = None,
       path_exists = (\<lambda>p. p = example_python),
       re_compile = (\<lambda>s. if s = parallel_class_pattern then Inr parallel_class_re
                           else Inl (ReError ''pattern not in the example'')),
       get_repo_open = (\<lambda>url. Inr example_repository),
       get_repo_initialise = (\<lambda>t url. Inr example_repository),
       get_user_config = (\<lambda>path. Inr None),
       output_stream = (\<lambda>stream out. (out @ stream, None)),
       cli_test_result = (\<lambda>latest_run test_case previous_run out. (out, Inr False)),
       subunit_trace = (\<lambda>stream out c s a b. (out, Inr True)) \<rparr>"

definition example_parser :: config_parser where
  "example_parser =
     \<lparr> has_option = (\<lambda>s k. False),
       get_option = (\<lambda>s k. Inl (OtherError ''NoOptionError'')),
       getboolean = (\<lambda>s k. Inl (OtherError ''NoOptionError'')) \<rparr>"

definition example_conf :: testr_conf where
  "example_conf =
     \<lparr> parser = example_parser, config_file = ''.stestr.conf'', section_name = ''DEFAULT'' \<rparr>"

definition example_args :: run_args where
  "example_args =
     \<lparr> arg_test_ids = None, arg_regexes = None, arg_test_path = Some ''./tests'',
       arg_top_dir = None, arg_group_regex = Some (''^(foo'' @ [bslash] @ ''.)''),
       arg_repo_url = None,
       arg_serial = False, arg_worker_path = None, arg_concurrency = 0,
       arg_exclude_list = None, arg_include_list = None, arg_exclude_regex = None,
       arg_randomize = False, arg_parallel_class = Some True \<rparr>"

definition example_world :: world where
  "example_world = \<lparr> stdout = [], stderr = [], warnings = [], gateway_calls = 0 \<rparr>"

text \<open>The same environment with a repository already at the location.\<close>

definition existing_ext :: "unit externals" where
  "existing_ext =
     example_ext\<lparr> get_repo_initialise := (\<lambda>t url. Inl (OSError EEXIST ''File exists'')) \<rparr>"

definition example_app :: app_args where
  "example_app = \<lparr> app_user_config = None, app_repo_url = None, app_repo_type = ''file'' \<rparr>"

text \<open>
  The same environment on a platform whose separator is a backslash, and a top directory
  that ends in three backslashes.
\<close>

definition windows_python :: string where
  "windows_python = ''C:'' @ [bslash] @ ''Python'' @ [bslash] @ ''python.exe''"

definition windows_ext :: "unit externals" where
  "windows_ext =
     example_ext\<lparr> os_sep := [bslash], sys_platform := ''win32'',
                  sys_executable := Some windows_python,
                  path_exists := (\<lambda>p. p = windows_python) \<rparr>"

definition odd_run_path :: string where
  "odd_run_path = ''C:'' @ [bslash] @ ''work'' @ [bslash, bslash, bslash]"

definition odd_run_args :: run_args where
  "odd_run_args = example_args\<lparr> arg_top_dir := Some odd_run_path \<rparr>"

text \<open>Parsed arguments of \<open>last\<close> with both attachment flags given.\<close>

definition conflicting_args :: last_args where
  "conflicting_args =
     \<lparr> args_subunit = False, args_no_subunit_trace = False, args_force_subunit_trace = False,
       args_color = False, args_suppress_attachments = True, args_all_attachments = True,
       args_show_binary_attachments = False \<rparr>"

section \<open>Path sanitization: what the substitution does\<close>

declare re_sub_from.simps [simp del]

lemma bslash_neq_newline [simp]: "bslash \<noteq> newline" "newline \<noteq> bslash"
  by (simp_all add: bslash_def newline_def)

lemma esc_matches:
  "matches escape_trailing_backslash_re (b, a) =
     (case b of [] \<Rightarrow> [] | c # b' \<Rightarrow>
        (case a of [] \<Rightarrow> [] | x # xs \<Rightarrow>
           if c \<noteq> bslash \<and> x = bslash \<and> (xs = [] \<or> xs = [newline]) then [(x # b, xs)] else []))"
  by (auto simp: escape_trailing_backslash_re_def split: list.splits)

lemma esc_sub_Nil: "re_sub_from escape_trailing_backslash_re R False (b, []) = []"
  by (simp add: re_sub_from.simps esc_matches split: list.splits)

lemma esc_sub_Cons:
  "re_sub_from escape_trailing_backslash_re R False (b, x # xs) =
     (if b \<noteq> [] \<and> hd b \<noteq> bslash \<and> x = bslash \<and> (xs = [] \<or> xs = [newline])
      then R @ xs
      else x # re_sub_from escape_trailing_backslash_re R False (x # b, xs))"
  apply (subst re_sub_from.simps)
  apply (auto simp: esc_matches esc_sub_Nil split: list.splits)
  apply (subst re_sub_from.simps)
  apply (auto simp: esc_matches esc_sub_Nil newline_def bslash_def split: list.splits)
  done

lemma esc_sub_single:
  "c \<noteq> bslash \<Longrightarrow> re_sub_from escape_trailing_backslash_re R False (b, q @ [c, bslash]) = q @ c # R"
  by (induction q arbitrary: b) (auto simp: esc_sub_Cons esc_sub_Nil)

lemma esc_sub_other:
  "a \<noteq> [] \<Longrightarrow> last a \<noteq> bslash \<Longrightarrow> last a \<noteq> newline \<Longrightarrow>
   re_sub_from escape_trailing_backslash_re R False (b, a) = a"
  by (induction a arbitrary: b) (auto simp: esc_sub_Cons esc_sub_Nil split: if_splits)

lemma esc_sub_length:
  "length a \<le> length (re_sub_from escape_trailing_backslash_re [bslash, bslash] False (b, a))"
  by (induction a arbitrary: b) (auto simp: esc_sub_Cons esc_sub_Nil)

lemma esc_sub_idem:
  "re_sub_from escape_trailing_backslash_re [bslash, bslash] False
     (b, re_sub_from escape_trailing_backslash_re [bslash, bslash] False (b, a)) =
   re_sub_from escape_trailing_backslash_re [bslash, bslash] False (b, a)"
proof (induction a arbitrary: b)
  case Nil
  show ?case by (simp add: esc_sub_Nil)
next
  case (Cons x xs)
  let ?f = "\<lambda>b a. re_sub_from escape_trailing_backslash_re [bslash, bslash] False (b, a)"
  show ?case
  proof (cases "b \<noteq> [] \<and> hd b \<noteq> bslash \<and> x = bslash \<and> (xs = [] \<or> xs = [newline])")
    case True
    then show ?thesis
      by (auto simp: esc_sub_Cons esc_sub_Nil newline_def bslash_def)
  next
    case False
    have step: "?f b (x # xs) = x # ?f (x # b) xs"
      by (subst esc_sub_Cons) (simp only: False if_False)
    have len: "length xs \<le> length (?f (x # b) xs)" by (rule esc_sub_length)
    have notrig: "\<not> (b \<noteq> [] \<and> hd b \<noteq> bslash \<and> x = bslash \<and>
                    (?f (x # b) xs = [] \<or> ?f (x # b) xs = [newline]))"
    proof
      assume t: "b \<noteq> [] \<and> hd b \<noteq> bslash \<and> x = bslash \<and>
                    (?f (x # b) xs = [] \<or> ?f (x # b) xs = [newline])"
      then consider "?f (x # b) xs = []" | "?f (x # b) xs = [newline]" by blast
      then show False
      proof cases
        case 1
        with len have "xs = []" by simp
        with t False show False by simp
      next
        case 2
        with len have "length xs \<le> 1" by simp
        then have "xs = [] \<or> (\<exists>y. xs = [y])" by (cases xs) auto
        then show False
        proof
          assume "xs = []" with t False show False by simp
        next
          assume "\<exists>y. xs = [y]"
          then obtain y where y: "xs = [y]" by blast
          with 2 t have "y = newline"
            by (auto simp: esc_sub_Cons esc_sub_Nil split: if_splits)
          with y t False show False by simp
        qed
      qed
    qed
    have "?f b (x # ?f (x # b) xs) = x # ?f (x # b) (?f (x # b) xs)"
      by (subst esc_sub_Cons) (simp only: notrig if_False)
    then show ?thesis
      using Cons.IH [of "x # b"] by (simp add: step)
  qed
qed

lemma sanitize_other_sep: "sep \<noteq> [bslash] \<Longrightarrow> sanitize_path sep p = p"
  by (simp add: sanitize_path_def)

lemma trailing_one:
  assumes "trailing_backslashes p = 1" "2 \<le> length p"
  shows "\<exists>q c. p = q @ [c, bslash] \<and> c \<noteq> bslash"
proof -
  obtain x y r where r: "rev p = x # y # r"
    using assms(2) by (cases "rev p"; cases "tl (rev p)") (auto simp: Suc_le_eq dest: arg_cong [where f=length])
  with assms(1) have "x = bslash" "y \<noteq> bslash"
    by (auto simp: trailing_backslashes_def split: if_splits)
  moreover from r have "p = rev r @ [y, x]"
    by (metis append.assoc append_Cons append_Nil rev.simps(2) rev_rev_ident)
  ultimately show ?thesis by blast
qed

lemma trailing_zero:
  assumes "trailing_backslashes p = 0" "p \<noteq> []"
  shows "last p \<noteq> bslash"
  using assms by (cases p rule: rev_cases) (auto simp: trailing_backslashes_def split: if_splits)

text \<open>
  Where the substitution does what is asked of it: a path that ends in exactly one
  backslash after another character gets that backslash doubled, and a path that ends
  neither in a backslash nor in a newline, or any path where the separator is not a
  backslash, is returned as it is.
\<close>

lemma sanitize_path_single_backslash:
  assumes "trailing_backslashes p = 1" and "2 \<le> length p"
  shows "sanitize_path [bslash] p = p @ [bslash]"
proof -
  obtain q c where "p = q @ [c, bslash]" "c \<noteq> bslash"
    using trailing_one [OF assms] by blast
  then show ?thesis
    by (simp add: sanitize_path_def re_sub_def esc_sub_single)
qed

lemma sanitize_path_no_backslash:
  assumes "trailing_backslashes p = 0" and "p = [] \<or> last p \<noteq> newline"
  shows "sanitize_path [bslash] p = p"
proof (cases "p = []")
  case True
  then show ?thesis by (simp add: sanitize_path_def re_sub_def esc_sub_Nil)
next
  case False
  with assms have "last p \<noteq> bslash" "last p \<noteq> newline"
    using trailing_zero by auto
  with False show ?thesis
    by (simp add: sanitize_path_def re_sub_def esc_sub_other)
qed

lemma sanitize_path_single_example:
  "sanitize_path [bslash] (''C:'' @ [bslash] @ ''work'' @ [bslash]) =
     ''C:'' @ [bslash] @ ''work'' @ [bslash, bslash]"
  by (simp add: sanitize_path_def re_sub_def esc_sub_Cons esc_sub_Nil bslash_def newline_def)

text \<open>
  Two more paths: \<open>$\<close> also holds before a final newline, and the look-behind needs a
  character before the backslash, so that the path of one backslash is returned as it is.
\<close>

lemma sanitize_newline_example:
  "sanitize_path [bslash] (''a'' @ [bslash, newline]) = ''a'' @ [bslash, bslash, newline]"
  by (simp add: sanitize_path_def re_sub_def esc_sub_Cons esc_sub_Nil bslash_def newline_def)

lemma sanitize_root_example:
  "sanitize_path [bslash] [bslash] = [bslash]"
  by (simp add: sanitize_path_def re_sub_def esc_sub_Cons esc_sub_Nil bslash_def newline_def)

text \<open>
  Claim C8: sanitizing a sanitized path changes nothing, for every separator and every path.
\<close>

theorem sanitize_path_idempotent:
  "sanitize_path sep (sanitize_path sep p) = sanitize_path sep p"
  by (simp add: sanitize_path_def re_sub_def esc_sub_idem)

theorem sanitize_path_idempotent_witness:
  "sanitize_path [bslash] (sanitize_path [bslash] (''C:'' @ [bslash] @ ''work'' @ [bslash])) =
   ''C:'' @ [bslash] @ ''work'' @ [bslash, bslash]"
  using sanitize_path_idempotent [of "[bslash]" "''C:'' @ [bslash] @ ''work'' @ [bslash]"]
  by (simp add: sanitize_path_def re_sub_def esc_sub_Cons esc_sub_Nil bslash_def newline_def)

section \<open>The classifier of the pattern of a class\<close>

declare matches.simps(4) [simp del]









lemma parallel_class_pattern_truthy: "truthy (Some parallel_class_pattern)"
  by (simp add: parallel_class_pattern_def)



text \<open>An id with dots is keyed by its prefix up to the last dot.\<close>

lemma group_callback_class_example:
  "group_callback parallel_class_re ''foo.bar.Test.test_x'' = Some ''foo.bar.Test.''"
  by (simp add: group_callback_def re_match_def parallel_class_re_def group0_def dot_def
        matches.simps(4))


section \<open>\<open>get_run_command\<close>: group pattern, test path, interpreter\<close>

lemma resolve_group_regex_parallel_class:
  "resolve_group_regex self (Some True) g = Inr (Some parallel_class_pattern)"
  using parallel_class_pattern_truthy by (simp add: resolve_group_regex_def)

lemma get_run_command_group_regex_irrelevant:
  assumes "arg_parallel_class args = Some True"
  shows "get_run_command ext self (args\<lparr>arg_group_regex := g\<rparr>) = get_run_command ext self args"
  using assms
  by (simp add: get_run_command_def resolve_group_regex_parallel_class Let_def
           split: sum.splits)

lemma get_run_command_parallel_class_callback:
  assumes "arg_parallel_class args = Some True"
    and "get_run_command ext self args = Inr fx"
  shows "\<exists>regex. re_compile ext parallel_class_pattern = Inr regex \<and>
                 fx_group_callback fx = Some (group_callback regex)"
  using assms parallel_class_pattern_truthy
  by (auto simp: get_run_command_def resolve_group_regex_parallel_class build_group_callback_def
                 Let_def split: sum.splits)

text \<open>
  Claim C2. When the \<open>parallel_class\<close> argument is true, every fixture that
  \<open>get_run_command\<close> returns carries the classifier built from the pattern of a class,
  and the \<open>group_regex\<close> argument has no influence on the outcome: whatever was supplied
  is overwritten.
\<close>

theorem parallel_class_overwrites_group_regex:
  assumes "arg_parallel_class args = Some True"
  shows "(\<forall>fx. get_run_command ext self args = Inr fx \<longrightarrow>
            (\<exists>regex. re_compile ext parallel_class_pattern = Inr regex \<and>
                     fx_group_callback fx = Some (group_callback regex))) \<and>
         (\<forall>g. get_run_command ext self (args\<lparr>arg_group_regex := g\<rparr>) =
              get_run_command ext self args)"
  using assms get_run_command_parallel_class_callback get_run_command_group_regex_irrelevant
  by blast

lemma example_python_not_quoted: "\<not> path_exists example_ext (quoted example_python)"
  by (simp add: example_ext_def quoted_def example_python_def dquote_def)

lemma example_resolve_python: "resolve_python example_ext = Inr example_python"
  using example_python_not_quoted
  by (simp add: resolve_python_def) (simp add: example_ext_def example_python_def)

lemma example_get_run_command:
  "get_run_command example_ext example_conf example_args =
     Inr \<lparr> fx_test_ids = None,
           fx_cmd_template = command example_python ''./'' ''./tests'',
           fx_listopt = ''--list'',
           fx_idoption = ''--load-list $IDFILE'',
           fx_repository = example_repository,
           fx_test_filters = None,
           fx_group_callback = Some (group_callback parallel_class_re),
           fx_serial = False,
           fx_worker_path = None,
           fx_concurrency = 0,
           fx_exclude_list = None,
           fx_exclude_regex = None,
           fx_include_list = None,
           fx_randomize = False \<rparr>"
proof -
  have tp: "resolve_test_path example_conf (arg_test_path example_args) = Inr ''./tests''"
    by (simp add: resolve_test_path_def example_args_def)
  have td: "resolve_top_dir example_conf (arg_top_dir example_args) = Inr ''./''"
    by (simp add: resolve_top_dir_def example_args_def example_conf_def example_parser_def)
  have sep: "os_sep example_ext = ''/''" by (simp add: example_ext_def)
  have san: "sanitize_path ''/'' p = p" for p
    by (rule sanitize_other_sep) (simp add: bslash_def)
  have gr: "resolve_group_regex example_conf (arg_parallel_class example_args)
              (arg_group_regex example_args) = Inr (Some parallel_class_pattern)"
    by (simp add: example_args_def resolve_group_regex_parallel_class)
  have cb: "build_group_callback example_ext (Some parallel_class_pattern) =
              Inr (Some (group_callback parallel_class_re))"
    using parallel_class_pattern_truthy
    by (simp add: build_group_callback_def) (simp add: example_ext_def)
  have ro: "get_repo_open example_ext (arg_repo_url example_args) = Inr example_repository"
    by (simp add: example_ext_def)
  show ?thesis
    by (simp add: get_run_command_def tp td sep san example_resolve_python gr cb ro)
       (simp add: example_args_def)
qed

theorem parallel_class_overwrites_group_regex_witness:
  "arg_parallel_class example_args = Some True \<and> truthy (arg_group_regex example_args) \<and>
   re_compile example_ext parallel_class_pattern = Inr parallel_class_re \<and>
   (case get_run_command example_ext example_conf example_args of
      Inl e \<Rightarrow> None | Inr fx \<Rightarrow> fx_group_callback fx) = Some (group_callback parallel_class_re)"
proof -
  have h: "arg_parallel_class example_args = Some True"
    by (simp add: example_args_def)
  have t: "truthy (arg_group_regex example_args)"
    by (simp add: example_args_def)
  have c: "re_compile example_ext parallel_class_pattern = Inr parallel_class_re"
    by (simp add: example_ext_def)
  from parallel_class_overwrites_group_regex [OF h, of example_ext example_conf]
       example_get_run_command c
  have "(case get_run_command example_ext example_conf example_args of
      Inl e \<Rightarrow> None | Inr fx \<Rightarrow> fx_group_callback fx) = Some (group_callback parallel_class_re)"
    by auto
  with h t c show ?thesis by blast
qed

text \<open>
  Claim C5. When the \<open>test_path\<close> argument is absent (or empty) and the section has no
  \<open>test_path\<close> option, \<open>get_run_command\<close> ends in \<open>sys.exit\<close> with a message that
  contains the path of the configuration file; no fixture is produced.
\<close>

theorem get_run_command_no_test_path:
  assumes "\<not> truthy (arg_test_path args)"
    and "\<not> has_option (parser self) (section_name self) ''test_path''"
  shows "get_run_command ext self args =
           Inl (SystemExit (ExitMessage (no_test_path_message (config_file self)))) \<and>
         (\<exists>before after. no_test_path_message (config_file self) =
                           before @ config_file self @ after)"
proof
  show "get_run_command ext self args =
           Inl (SystemExit (ExitMessage (no_test_path_message (config_file self))))"
    using assms by (simp add: get_run_command_def resolve_test_path_def)
  show "\<exists>before after. no_test_path_message (config_file self) =
                           before @ config_file self @ after"
    unfolding no_test_path_message_def by (metis append.assoc)
qed

theorem get_run_command_no_test_path_witness:
  "\<not> truthy (arg_test_path (example_args\<lparr>arg_test_path := None\<rparr>)) \<and>
   \<not> has_option (parser example_conf) (section_name example_conf) ''test_path'' \<and>
   get_run_command example_ext example_conf (example_args\<lparr>arg_test_path := None\<rparr>) =
     Inl (SystemExit (ExitMessage (no_test_path_message ''.stestr.conf'')))"
proof -
  have a: "\<not> truthy (arg_test_path (example_args\<lparr>arg_test_path := None\<rparr>))"
    by simp
  have b: "\<not> has_option (parser example_conf) (section_name example_conf) ''test_path''"
    by (simp add: example_conf_def example_parser_def)
  have c: "config_file example_conf = ''.stestr.conf''"
    by (simp add: example_conf_def)
  from get_run_command_no_test_path [OF a b, of example_ext] a b c show ?thesis
    by simp
qed

text \<open>
  Claim C6 at a concrete input. The interpreter path has a space in it, no file exists
  under the path in quotes, and the command template starts with the path without quotes:
  the test of line 141 asks whether the quoted path exists, not whether the path has
  whitespace in it.
\<close>

theorem interpreter_with_space_not_quoted:
  "CHR '' '' \<in> set example_python \<and>
   sys_executable example_ext = Some example_python \<and>
   resolve_python example_ext = Inr example_python \<and>
   (case get_run_command example_ext example_conf example_args of
      Inl e \<Rightarrow> None | Inr fx \<Rightarrow> Some (fx_cmd_template fx)) =
     Some (''/opt/my python/bin/python3 -m stestr.subunit_runner.run discover -t '' @
           [dquote] @ ''./'' @ [dquote] @ '' '' @ [dquote] @ ''./tests'' @ [dquote] @
           '' $LISTOPT $IDOPTION'')"
proof -
  have "CHR '' '' \<in> set example_python" by (simp add: example_python_def)
  moreover have "sys_executable example_ext = Some example_python"
    by (simp add: example_ext_def)
  moreover have "(case get_run_command example_ext example_conf example_args of
      Inl e \<Rightarrow> None | Inr fx \<Rightarrow> Some (fx_cmd_template fx)) =
     Some (''/opt/my python/bin/python3 -m stestr.subunit_runner.run discover -t '' @
           [dquote] @ ''./'' @ [dquote] @ '' '' @ [dquote] @ ''./tests'' @ [dquote] @
           '' $LISTOPT $IDOPTION'')"
    by (simp add: example_get_run_command command_def quoted_def example_python_def)
  ultimately show ?thesis using example_resolve_python by blast
qed


lemma windows_resolve_python: "resolve_python windows_ext = Inr windows_python"
proof -
  have "\<not> path_exists windows_ext (quoted windows_python)"
    by (simp add: windows_ext_def quoted_def windows_python_def dquote_def)
  then show ?thesis
    by (simp add: resolve_python_def) (simp add: windows_ext_def windows_python_def)
qed

lemma odd_run_path_unchanged: "sanitize_path [bslash] odd_run_path = odd_run_path"
  by (simp add: sanitize_path_def re_sub_def odd_run_path_def esc_sub_Cons esc_sub_Nil
        bslash_def newline_def)

lemma tests_path_unchanged: "sanitize_path [bslash] ''./tests'' = ''./tests''"
  by (simp add: sanitize_path_def re_sub_def esc_sub_Cons esc_sub_Nil bslash_def newline_def)

lemma windows_get_run_command_template:
  "(case get_run_command windows_ext example_conf odd_run_args of
      Inl e \<Rightarrow> None | Inr fx \<Rightarrow> Some (fx_cmd_template fx)) =
   Some (command windows_python odd_run_path ''./tests'')"
proof -
  have tp: "resolve_test_path example_conf (arg_test_path odd_run_args) = Inr ''./tests''"
    by (simp add: resolve_test_path_def odd_run_args_def example_args_def)
  have td: "resolve_top_dir example_conf (arg_top_dir odd_run_args) = Inr odd_run_path"
    by (simp add: resolve_top_dir_def odd_run_args_def odd_run_path_def)
  have sep: "os_sep windows_ext = [bslash]" by (simp add: windows_ext_def)
  have gr: "resolve_group_regex example_conf (arg_parallel_class odd_run_args)
              (arg_group_regex odd_run_args) = Inr (Some parallel_class_pattern)"
    by (simp add: odd_run_args_def example_args_def resolve_group_regex_parallel_class)
  have cb: "build_group_callback windows_ext (Some parallel_class_pattern) =
              Inr (Some (group_callback parallel_class_re))"
    using parallel_class_pattern_truthy
    by (simp add: build_group_callback_def) (simp add: windows_ext_def example_ext_def)
  have ro: "get_repo_open windows_ext (arg_repo_url odd_run_args) = Inr example_repository"
    by (simp add: windows_ext_def example_ext_def)
  show ?thesis
    by (simp add: get_run_command_def tp td sep odd_run_path_unchanged tests_path_unchanged
          windows_resolve_python gr cb ro)
qed

text \<open>
  Claim C1 at a concrete input. The separator is a backslash and the top directory ends in
  three backslashes, an odd number. The specification's wording doubles the last of them;
  \<open>_sanitize_path\<close> returns the path as it is, because the backslash before the last one
  makes the look-behind fail, and the command template has the three backslashes right
  before the closing quote of \<open>-t "..."\<close>, which is what the comment of lines 44 to 46
  says the escape is there to prevent.
\<close>

theorem sanitize_path_odd_run_unescaped:
  "os_sep windows_ext = [bslash] \<and>
   odd (trailing_backslashes odd_run_path) \<and>
   spec_sanitize_path [bslash] odd_run_path = odd_run_path @ [bslash] \<and>
   sanitize_path [bslash] odd_run_path = odd_run_path \<and>
   (case get_run_command windows_ext example_conf odd_run_args of
      Inl e \<Rightarrow> None | Inr fx \<Rightarrow> Some (fx_cmd_template fx)) =
     Some (windows_python @ '' -m stestr.subunit_runner.run discover -t '' @
           [dquote] @ ''C:'' @ [bslash] @ ''work'' @ [bslash, bslash, bslash] @ [dquote] @
           '' '' @ [dquote] @ ''./tests'' @ [dquote] @ '' $LISTOPT $IDOPTION'')"
proof -
  have "os_sep windows_ext = [bslash]" by (simp add: windows_ext_def)
  moreover have o: "odd (trailing_backslashes odd_run_path)"
    by (simp add: trailing_backslashes_def odd_run_path_def bslash_def)
  moreover from o have "spec_sanitize_path [bslash] odd_run_path = odd_run_path @ [bslash]"
    by (simp add: spec_sanitize_path_def)
  moreover have "(case get_run_command windows_ext example_conf odd_run_args of
      Inl e \<Rightarrow> None | Inr fx \<Rightarrow> Some (fx_cmd_template fx)) =
     Some (windows_python @ '' -m stestr.subunit_runner.run discover -t '' @
           [dquote] @ ''C:'' @ [bslash] @ ''work'' @ [bslash, bslash, bslash] @ [dquote] @
           '' '' @ [dquote] @ ''./tests'' @ [dquote] @ '' $LISTOPT $IDOPTION'')"
    by (simp add: windows_get_run_command_template command_def quoted_def odd_run_path_def)
  ultimately show ?thesis using odd_run_path_unchanged by blast
qed

section \<open>\<open>last\<close> and \<open>init\<close>: exit statuses\<close>

lemma last_cmd_raw:
  assumes "get_repo_open ext repo_url = Inr repo" "get_latest_run repo = Inr latest_run"
  shows "last_cmd ext repo_url True pretty_out color suppress_attachments all_attachments
           show_binary_attachments w =
         (case output_stream ext (get_subunit_stream latest_run) (stdout w) of
            (out, Some e) \<Rightarrow> (Inl e, w\<lparr>stdout := out, gateway_calls := gateway_calls w + 1\<rparr>)
          | (out, None) \<Rightarrow> (Inr 0, w\<lparr>stdout := out, gateway_calls := gateway_calls w + 1\<rparr>))"
  using assms by (simp add: last_cmd_def Let_def split: prod.splits option.splits)

lemma last_cmd_structured:
  assumes "get_repo_open ext repo_url = Inr repo" "get_latest_run repo = Inr latest_run"
    and "load_previous repo = Inr previous_run"
    and "cli_test_result ext latest_run (get_test latest_run) previous_run (stdout w) =
           (out, Inr successful)"
  shows "last_cmd ext repo_url False False color suppress_attachments all_attachments
           show_binary_attachments w =
         (Inr (exit_status (\<not> successful)),
          w\<lparr>stdout := out, gateway_calls := gateway_calls w + 1\<rparr>)"
  using assms by (simp add: last_cmd_def Let_def)

lemma last_cmd_trace:
  assumes "get_repo_open ext repo_url = Inr repo" "get_latest_run repo = Inr latest_run"
    and "load_previous repo = Inr previous_run"
    and "subunit_trace ext (get_subunit_stream latest_run) (stdout w) color
           suppress_attachments all_attachments show_binary_attachments = (out, Inr failed)"
  shows "last_cmd ext repo_url False True color suppress_attachments all_attachments
           show_binary_attachments w =
         (Inr (exit_status failed), w\<lparr>stdout := out, gateway_calls := gateway_calls w + 1\<rparr>)"
  using assms by (simp add: last_cmd_def Let_def)

text \<open>
  Claim C3. Let the repository open and hold a latest run. When the copy of its stream to
  the sink raises nothing, \<open>last\<close> with \<open>subunit_out\<close> returns 0, whatever the renderers
  would say of the run. Without \<open>subunit_out\<close>, once the run before the latest has been
  looked up, the same run returns 1 in both rendered modes when the renderer reports
  failure: the collector's summary is not successful, or the trace had failures.
\<close>

theorem raw_stream_exit_status:
  assumes "get_repo_open ext repo_url = Inr repo" and "get_latest_run repo = Inr latest_run"
  shows "(snd (output_stream ext (get_subunit_stream latest_run) (stdout w)) = None \<longrightarrow>
            fst (last_cmd ext repo_url True pretty_out color suppress_attachments
                   all_attachments show_binary_attachments w) = Inr 0) \<and>
         (\<forall>previous_run out.
            load_previous repo = Inr previous_run \<and>
            cli_test_result ext latest_run (get_test latest_run) previous_run (stdout w) =
              (out, Inr False) \<longrightarrow>
            fst (last_cmd ext repo_url False False color suppress_attachments
                   all_attachments show_binary_attachments w) = Inr 1) \<and>
         (\<forall>previous_run out.
            load_previous repo = Inr previous_run \<and>
            subunit_trace ext (get_subunit_stream latest_run) (stdout w) color
              suppress_attachments all_attachments show_binary_attachments =
              (out, Inr True) \<longrightarrow>
            fst (last_cmd ext repo_url False True color suppress_attachments
                   all_attachments show_binary_attachments w) = Inr 1)"
proof (intro conjI allI impI)
  assume "snd (output_stream ext (get_subunit_stream latest_run) (stdout w)) = None"
  then show "fst (last_cmd ext repo_url True pretty_out color suppress_attachments
                   all_attachments show_binary_attachments w) = Inr 0"
    by (cases "output_stream ext (get_subunit_stream latest_run) (stdout w)")
       (simp add: last_cmd_raw [OF assms])
next
  fix previous_run out
  assume "load_previous repo = Inr previous_run \<and>
            cli_test_result ext latest_run (get_test latest_run) previous_run (stdout w) =
              (out, Inr False)"
  then have lp: "load_previous repo = Inr previous_run"
    and cr: "cli_test_result ext latest_run (get_test latest_run) previous_run (stdout w) =
               (out, Inr False)"
    by simp_all
  show "fst (last_cmd ext repo_url False False color suppress_attachments
                   all_attachments show_binary_attachments w) = Inr 1"
    by (simp add: last_cmd_structured [OF assms lp cr] exit_status_def)
next
  fix previous_run out
  assume "load_previous repo = Inr previous_run \<and>
            subunit_trace ext (get_subunit_stream latest_run) (stdout w) color
              suppress_attachments all_attachments show_binary_attachments =
              (out, Inr True)"
  then have lp: "load_previous repo = Inr previous_run"
    and tr: "subunit_trace ext (get_subunit_stream latest_run) (stdout w) color
               suppress_attachments all_attachments show_binary_attachments = (out, Inr True)"
    by simp_all
  show "fst (last_cmd ext repo_url False True color suppress_attachments
                   all_attachments show_binary_attachments w) = Inr 1"
    by (simp add: last_cmd_trace [OF assms lp tr] exit_status_def)
qed

lemma example_load_previous: "load_previous example_repository = Inr None"
  by (simp add: load_previous_def example_repository_def)

theorem raw_stream_exit_status_witness:
  "get_repo_open example_ext None = Inr example_repository \<and>
   get_latest_run example_repository = Inr example_run \<and>
   snd (output_stream example_ext (get_subunit_stream example_run) (stdout example_world)) = None \<and>
   load_previous example_repository = Inr None \<and>
   cli_test_result example_ext example_run (get_test example_run) None (stdout example_world) =
     ([], Inr False) \<and>
   subunit_trace example_ext (get_subunit_stream example_run) (stdout example_world)
     False False False False = ([], Inr True) \<and>
   fst (last_cmd example_ext None True True False False False False example_world) = Inr 0 \<and>
   fst (last_cmd example_ext None False False False False False False example_world) = Inr 1 \<and>
   fst (last_cmd example_ext None False True False False False False example_world) = Inr 1"
proof -
  have a: "get_repo_open example_ext None = Inr example_repository"
    by (simp add: example_ext_def)
  have b: "get_latest_run example_repository = Inr example_run"
    by (simp add: example_repository_def)
  have c: "snd (output_stream example_ext (get_subunit_stream example_run)
                  (stdout example_world)) = None"
    by (simp add: example_ext_def)
  have d: "cli_test_result example_ext example_run (get_test example_run) None
             (stdout example_world) = ([], Inr False)"
    by (simp add: example_ext_def example_world_def)
  have e: "subunit_trace example_ext (get_subunit_stream example_run) (stdout example_world)
             False False False False = ([], Inr True)"
    by (simp add: example_ext_def example_world_def)
  from raw_stream_exit_status [OF a b, of example_world True False False False False]
       c d e example_load_previous
  have "fst (last_cmd example_ext None True True False False False False example_world) = Inr 0"
       "fst (last_cmd example_ext None False False False False False False example_world) = Inr 1"
       "fst (last_cmd example_ext None False True False False False False example_world) = Inr 1"
    by blast+
  with a b c d e example_load_previous show ?thesis by blast
qed

text \<open>
  Claim C10. With \<open>subunit_out\<close>, the result of \<open>last\<close> and the world it leaves (the text
  on the sink included) do not depend on \<open>pretty_out\<close>, \<open>color\<close>,
  \<open>suppress_attachments\<close>, \<open>all_attachments\<close> or \<open>show_binary_attachments\<close>.
\<close>

theorem raw_output_ignores_rendering_settings:
  "last_cmd ext repo_url True pretty_out color suppress_attachments all_attachments
     show_binary_attachments w =
   last_cmd ext repo_url True pretty_out' color' suppress_attachments' all_attachments'
     show_binary_attachments' w"
  by (simp add: last_cmd_def Let_def split: sum.splits exn.splits)

theorem raw_output_ignores_rendering_settings_witness:
  "last_cmd example_ext None True True True True False True example_world =
   last_cmd example_ext None True False False False True False example_world \<and>
   last_cmd example_ext None True True True True False True example_world =
     (Inr 0, example_world\<lparr>stdout := ''subunit-bytes'', gateway_calls := 1\<rparr>)"
proof -
  have a: "get_repo_open example_ext None = Inr example_repository"
    by (simp add: example_ext_def)
  have b: "get_latest_run example_repository = Inr example_run"
    by (simp add: example_repository_def)
  have "last_cmd example_ext None True True True True False True example_world =
     (Inr 0, example_world\<lparr>stdout := ''subunit-bytes'', gateway_calls := 1\<rparr>)"
    by (simp add: last_cmd_raw [OF a b])
       (simp add: example_ext_def example_world_def example_run_def)
  with raw_output_ignores_rendering_settings
         [of example_ext None True True True False True example_world False False False True False]
  show ?thesis by simp
qed

lemma take_action_conflict:
  assumes "args_suppress_attachments args" "args_all_attachments args"
  shows "take_action ext app args w =
           (case get_user_config ext (app_user_config app) of
              Inl e \<Rightarrow> (Inl e, w)
            | Inr user_conf \<Rightarrow>
                (Inl (SystemExit (ExitStatus 1)),
                 stdout_write (mutually_exclusive_message @ [newline]) w))"
  using assms by (simp add: take_action_def split: sum.splits)

text \<open>
  Claim C4. When both \<open>--suppress-attachments\<close> and \<open>--all-attachments\<close> are given,
  \<open>Last.take_action\<close> never calls \<open>util.get_repo_open\<close>, and, once the user configuration
  has been read, it prints the message and ends in \<open>sys.exit(1)\<close>.
\<close>

theorem conflicting_attachment_flags_exit_before_repository:
  assumes "args_suppress_attachments args" and "args_all_attachments args"
  shows "gateway_calls (snd (take_action ext app args w)) = gateway_calls w \<and>
         (\<forall>user_conf. get_user_config ext (app_user_config app) = Inr user_conf \<longrightarrow>
            take_action ext app args w =
              (Inl (SystemExit (ExitStatus 1)),
               stdout_write (mutually_exclusive_message @ [newline]) w))"
  by (simp add: take_action_conflict [OF assms] stdout_write_def split: sum.splits)


theorem conflicting_attachment_flags_exit_before_repository_witness:
  "args_suppress_attachments conflicting_args \<and> args_all_attachments conflicting_args \<and>
   get_user_config example_ext (app_user_config example_app) = Inr None \<and>
   gateway_calls (snd (take_action example_ext example_app conflicting_args example_world)) = 0 \<and>
   fst (take_action example_ext example_app conflicting_args example_world) =
     Inl (SystemExit (ExitStatus 1))"
proof -
  have a: "args_suppress_attachments conflicting_args"
    and b: "args_all_attachments conflicting_args"
    by (simp_all add: conflicting_args_def)
  have c: "get_user_config example_ext (app_user_config example_app) = Inr None"
    by (simp add: example_ext_def)
  have d: "gateway_calls example_world = 0"
    by (simp add: example_world_def)
  from conflicting_attachment_flags_exit_before_repository
         [OF a b, of example_ext example_app example_world] c d
  have "gateway_calls (snd (take_action example_ext example_app conflicting_args example_world)) = 0"
    and "fst (take_action example_ext example_app conflicting_args example_world) =
           Inl (SystemExit (ExitStatus 1))"
    by (simp_all add: stdout_write_def)
  with a b c show ?thesis by blast
qed

text \<open>Every call of \<open>last\<close> itself calls \<open>util.get_repo_open\<close> exactly once.\<close>

lemma last_cmd_calls_gateway_once:
  "gateway_calls (snd (last_cmd ext repo_url subunit_out pretty_out color suppress_attachments
                         all_attachments show_binary_attachments w)) = gateway_calls w + 1"
  by (simp add: last_cmd_def Let_def stdout_write_def
           split: sum.splits exn.splits prod.splits option.splits)

lemma init_already_exists:
  assumes "get_repo_initialise ext repo_type repo_url = Inl (OSError EEXIST m)"
  shows "fst (init ext repo_type repo_url w) = Inr (Some 1) \<and>
         stdout (snd (init ext repo_type repo_url w)) =
           stdout w @ already_exists_message
                        (if truthy repo_url then str_value repo_url else ''./stestr'')"
  using assms by (simp add: init_def Let_def stdout_write_def)

lemma init_fresh:
  assumes "get_repo_initialise ext repo_type repo_url = Inr repo"
  shows "fst (init ext repo_type repo_url w) = Inr None"
  using assms by (simp add: init_def Let_def)

lemma init_take_action_returns_nothing:
  "fst (init_take_action ext app w) = Inr None \<or> (\<exists>e. fst (init_take_action ext app w) = Inl e)"
  by (cases "init ext (app_repo_type app) (app_repo_url app) w")
     (auto simp: init_take_action_def split: sum.splits)

text \<open>
  Claim C7 at concrete inputs. On a fresh location \<open>init\<close> reaches its end without a
  \<open>return\<close>, so its result is \<open>None\<close> and not 0. On a location that exists it returns 1
  and names \<open>./stestr\<close> when no URL was given, but \<open>Init.take_action\<close> drops that status
  and returns nothing.
\<close>

theorem init_status_lost:
  "fst (init example_ext ''file'' None example_world) = Inr None \<and>
   fst (init existing_ext ''file'' None example_world) = Inr (Some 1) \<and>
   stdout (snd (init existing_ext ''file'' None example_world)) =
     already_exists_message ''./stestr'' \<and>
   fst (init_take_action existing_ext example_app example_world) = Inr None"
proof -
  have f: "get_repo_initialise example_ext ''file'' None = Inr example_repository"
    by (simp add: example_ext_def)
  have x: "get_repo_initialise existing_ext ''file'' None = Inl (OSError EEXIST ''File exists'')"
    by (simp add: existing_ext_def)
  have "fst (init_take_action existing_ext example_app example_world) = Inr None"
    using init_already_exists [OF x, of example_world]
    by (cases "init existing_ext ''file'' None example_world")
       (simp add: init_take_action_def example_app_def)
  with init_fresh [OF f, of example_world] init_already_exists [OF x, of example_world]
  show ?thesis by (simp add: example_world_def)
qed


end
